theory Spec2Isabelle
  imports Main "HOL-Library.Word" "HOL-Library.Multiset"
begin

section \<open>Offscreen QML surface: the shared object between owning and render thread\<close>

text \<open>
  The development embeds \<^verbatim>\<open>libraries/qml/src/qml/impl/SharedObject.cpp\<close>.
  Every member function becomes a function from the object's fields to the updated
  fields, together with the list of calls it makes on its collaborators (mutex,
  condition variable, event queue, texture cache, Qt scene objects) in program order.
  A \<^verbatim>\<open>qFatal\<close> is the error branch of a sum type.  Logging and profiling
  macros (\<^verbatim>\<open>qCDebug\<close>, \<^verbatim>\<open>PROFILE_RANGE\<close>) have no effect on the
  object and are left out.  Calls through the Qt pointers the constructor,
  \<^verbatim>\<open>create\<close> and \<^verbatim>\<open>setRootItem\<close> establish are recorded as effects.
\<close>

subsection \<open>Data\<close>

text \<open>
  Modelled from the spec: \<^verbatim>\<open>TextureAndFence\<close> is declared in a header that is not
  part of the sources.  The spec's Frame is a (TextureHandle, FenceHandle) pair; the code
  builds it as \<^verbatim>\<open>{ 0, 0 }\<close> and tests \<^verbatim>\<open>.first\<close> against 0, so the texture is
  an unsigned 32-bit name (0 = none) and the fence an address (0 = null).
\<close>

type_synonym TextureAndFence = "32 word \<times> nat"

text \<open>\<^verbatim>\<open>QSize\<close>: width and height.\<close>

type_synonym QSize = "int \<times> int"

text \<open>
  The members of \<^verbatim>\<open>SharedObject\<close> the functions read and write.  A pointer member
  is modelled by whether it is set (\<open>True\<close>) or \<^verbatim>\<open>nullptr\<close> (\<open>False\<close>): the code
  only tests these pointers and calls through them.  \<^verbatim>\<open>_renderControl\<close> and
  \<^verbatim>\<open>_quickWindow\<close> are set by the constructor and stay set until the destructor.
\<close>

record SharedObject =
  rootItem :: bool
  qmlContext :: bool
  renderThread :: bool
  renderObject :: bool
  renderTimer :: bool
  latestTextureAndFence :: TextureAndFence
  size_m :: QSize
  lastRenderTime :: "64 word"
  maxFps :: "8 word"
  renderRequested :: bool
  syncRequested :: bool
  quit :: bool
  paused :: bool

text \<open>\<^verbatim>\<open>OffscreenEvent::Type\<close>, the receiver of a posted event and its priority.\<close>

datatype OffscreenEvent = Initialize | Render | Quit

datatype receiver = This | RenderObject

datatype priority = NormalEventPriority | HighEventPriority

text \<open>The members whose assignments are recorded in the trace.\<close>

datatype member = M_paused | M_quit | M_syncRequested | M_renderRequested | M_size
  | M_latestTextureAndFence | M_rootItem | M_qmlContext | M_renderThread | M_renderObject
  | M_renderTimer

text \<open>
  The calls a member function makes, in program order.  \<open>Lock\<close> and \<open>Unlock\<close> are
  the constructor and destructor of a \<^verbatim>\<open>QMutexLocker\<close> on \<^verbatim>\<open>_mutex\<close> (or its
  \<^verbatim>\<open>relock\<close> and \<^verbatim>\<open>unlock\<close>); \<open>Wait\<close> is \<^verbatim>\<open>_cond.wait(&_mutex)\<close>, which
  returns with the mutex held again; \<open>Wake\<close> is \<^verbatim>\<open>_cond.wakeOne()\<close>;
  \<open>Assign m\<close> is an assignment to the member \<open>m\<close>.
\<close>

datatype effect =
    Lock | Unlock | Wait | Wake
  | Assign member
  | PostEvent receiver OffscreenEvent priority
  | ReleaseTexture TextureAndFence
  | ReleaseSize QSize
  | Report
  | Sync | PolishItems | Invalidate | DoneCurrent | InitializeControl
  | SetGeometry QSize | ContentItemSetSize QSize
  | SetContextProperty QSize | RootItemSetSize QSize | RootItemSetSizeOfWindow
  | ConnectFocusObjectChanged | AcquireEngine | RootContextCreated
  | SetIncubationController | SetOffscreenWindowProperty
  | ThreadStart | ConnectRenderRequested | ConnectSceneChanged
  | SetParentItem | PrepareThread | TimerStart
  | DeleteLater | DisconnectTimer | TimerDeleteLater
  | DisconnectRenderControl | DisconnectApp | ThreadWait
  | QObjectEvent

datatype error = Fatal string | DivideByZero

subsection \<open>The shared context\<close>

text \<open>
  \<^verbatim>\<open>setSharedContext\<close> stores its argument in an application property and then
  compares it with the current context (the first argument here).  The result is the
  property's new value, which \<^verbatim>\<open>getSharedContext\<close> reads; contexts are addresses.
\<close>

definition setSharedContext :: "nat \<Rightarrow> nat \<Rightarrow> error + nat" where
  "setSharedContext currentContext sharedContext =
     (if currentContext \<noteq> sharedContext
      then Inl (Fatal ''The shared context must be the current context when setting'')
      else Inr sharedContext)"

text \<open>
  \<^verbatim>\<open>initializeRenderControl(context)\<close>: \<open>shareContext\<close> is
  \<^verbatim>\<open>context->shareContext()\<close>, \<open>registered\<close> is \<^verbatim>\<open>getSharedContext()\<close>,
  \<open>nsight\<close> is \<^verbatim>\<open>nsightActive()\<close>.
\<close>

definition initializeRenderControl ::
  "nat \<Rightarrow> nat \<Rightarrow> bool \<Rightarrow> SharedObject \<Rightarrow> error + SharedObject \<times> effect list" where
  "initializeRenderControl shareContext registered nsight s =
     (if shareContext \<noteq> registered
      then Inl (Fatal ''QML rendering context has no share context'')
      else Inr (s, if \<not> nsight then [InitializeControl] else []))"

subsection \<open>Creation and destruction\<close>

text \<open>\<open>incubating\<close> is \<^verbatim>\<open>qmlEngine->incubationController()\<close> of the new engine.\<close>

definition create :: "bool \<Rightarrow> SharedObject \<Rightarrow> error + SharedObject \<times> effect list" where
  "create incubating s =
     (if rootItem s then Inl (Fatal ''QML surface root item already set'')
      else Inr (s\<lparr>qmlContext := True\<rparr>,
        [ConnectFocusObjectChanged, AcquireEngine, Assign M_qmlContext, RootContextCreated]
        @ (if \<not> incubating then [SetIncubationController] else [])
        @ [SetOffscreenWindowProperty]))"

text \<open>\<^verbatim>\<open>setRootItem(rootItem)\<close>, for a live item: the function calls through the
  pointer at once.\<close>

definition setRootItem :: "SharedObject \<Rightarrow> SharedObject \<times> effect list" where
  "setRootItem s =
     (s\<lparr>rootItem := True, renderThread := True, renderObject := True\<rparr>,
      [Assign M_rootItem, RootItemSetSizeOfWindow, Assign M_renderThread, ThreadStart,
       Assign M_renderObject, PostEvent This Initialize NormalEventPriority,
       ConnectRenderRequested, ConnectSceneChanged])"

definition destroy :: "SharedObject \<Rightarrow> SharedObject \<times> effect list" where
  "destroy s =
     (if quit s then (s, [])
      else if \<not> rootItem s then (s, [DeleteLater])
      else
        (s\<lparr>paused := True, quit := True\<rparr>,
         [Assign M_paused]
         @ (if renderTimer s then [DisconnectTimer, TimerDeleteLater] else [])
         @ [DisconnectRenderControl, DisconnectApp]
         @ [Lock, Assign M_quit, PostEvent RenderObject Quit HighEventPriority, Unlock]
         @ [ThreadWait]))"

definition onAboutToQuit :: "SharedObject \<Rightarrow> SharedObject \<times> effect list" where
  "onAboutToQuit s = destroy s"

subsection \<open>The latest texture\<close>

definition releaseTextureAndFence :: "SharedObject \<Rightarrow> SharedObject \<times> effect list" where
  "releaseTextureAndFence s =
     (if fst (latestTextureAndFence s) \<noteq> 0
      then (s\<lparr>latestTextureAndFence := (0, 0)\<rparr>,
            [Lock, ReleaseTexture (latestTextureAndFence s), Assign M_latestTextureAndFence,
             Unlock])
      else (s, [Lock, Unlock]))"

text \<open>\<^verbatim>\<open>fetchTexture(textureAndFence)\<close>: the first argument is the caller's variable
  before the call, the second component of the result is the variable after it.\<close>

definition fetchTexture ::
  "TextureAndFence \<Rightarrow> SharedObject \<Rightarrow> bool \<times> TextureAndFence \<times> SharedObject \<times> effect list" where
  "fetchTexture textureAndFence s =
     (if 0 = fst (latestTextureAndFence s)
      then (False, textureAndFence, s, [Lock, Unlock])
      else (True, latestTextureAndFence s, s\<lparr>latestTextureAndFence := (0, 0)\<rparr>,
            [Lock, Assign M_latestTextureAndFence, Unlock]))"

definition updateTextureAndFence ::
  "TextureAndFence \<Rightarrow> SharedObject \<Rightarrow> SharedObject \<times> effect list" where
  "updateTextureAndFence newTextureAndFence s =
     (if fst (latestTextureAndFence s) \<noteq> 0
      then (s\<lparr>latestTextureAndFence := newTextureAndFence\<rparr>,
            [Lock, ReleaseTexture (latestTextureAndFence s), Assign M_latestTextureAndFence,
             Assign M_latestTextureAndFence, Unlock])
      else (s\<lparr>latestTextureAndFence := newTextureAndFence\<rparr>,
            [Lock, Assign M_latestTextureAndFence, Unlock]))"

subsection \<open>Render requests\<close>

definition requestRender :: "SharedObject \<Rightarrow> SharedObject \<times> effect list" where
  "requestRender s =
     (if renderRequested s then (s, [])
      else (s\<lparr>renderRequested := True\<rparr>, [Assign M_renderRequested]))"

definition requestRenderSync :: "SharedObject \<Rightarrow> SharedObject \<times> effect list" where
  "requestRenderSync s =
     (if quit s then (s, [])
      else
        (let s1 = s\<lparr>syncRequested := True\<rparr>;
             (s2, e2) = requestRender s1
         in (s2, [Lock, Assign M_syncRequested, Unlock] @ e2)))"

subsection \<open>Size\<close>

definition getSize :: "SharedObject \<Rightarrow> QSize \<times> effect list" where
  "getSize s = (size_m s, [Lock, Unlock])"

definition setSize :: "QSize \<Rightarrow> SharedObject \<Rightarrow> SharedObject \<times> effect list" where
  "setSize sz s =
     (let (cur, e0) = getSize s in
      if cur = sz then (s, e0)
      else
        (let s1 = s\<lparr>size_m := sz\<rparr>;
             e1 = [Lock, Assign M_size, Unlock];
             e2 = [SetGeometry sz, ContentItemSetSize sz];
             e3 = (if rootItem s1 then [SetContextProperty sz, RootItemSetSize sz] else []);
             (s2, e4) = requestRenderSync s1
         in (s2, e0 @ e1 @ e2 @ e3 @ e4)))"

subsection \<open>The render thread's calls\<close>

text \<open>\<^verbatim>\<open>preRender\<close>: \<open>nsight\<close> is \<^verbatim>\<open>nsightActive()\<close>, \<open>syncOk\<close> is what
  \<^verbatim>\<open>_renderControl->sync()\<close> returns when it is called.\<close>

definition preRender ::
  "bool \<Rightarrow> bool \<Rightarrow> SharedObject \<Rightarrow> bool \<times> SharedObject \<times> effect list" where
  "preRender nsight syncOk s =
     (if paused s
      then (False, s, [Lock] @ (if syncRequested s then [Wake] else []) @ [Unlock])
      else if syncRequested s
      then
        (let syncResult = (if \<not> nsight then syncOk else True);
             e = [Lock] @ (if \<not> nsight then [Sync] else []) @ [Wake]
         in if \<not> syncResult then (False, s, e @ [Unlock])
            else (True, s\<lparr>syncRequested := False\<rparr>, e @ [Assign M_syncRequested, Unlock]))
      else (True, s, [Lock, Unlock]))"

definition shutdownRendering :: "QSize \<Rightarrow> SharedObject \<Rightarrow> SharedObject \<times> effect list" where
  "shutdownRendering sz s =
     (s, [Lock] @ (if sz \<noteq> (0, 0) then [ReleaseSize sz] else [])
         @ [Invalidate, DoneCurrent, Wake, Unlock])"

definition isQuit :: "SharedObject \<Rightarrow> bool \<times> effect list" where
  "isQuit s = (quit s, [Lock, Unlock])"

subsection \<open>Events of the owning thread\<close>

definition onInitialize :: "SharedObject \<Rightarrow> SharedObject \<times> effect list" where
  "onInitialize s =
     (let e0 = [SetParentItem, PrepareThread,
                PostEvent RenderObject Initialize NormalEventPriority];
          (s1, e1) = requestRender s
      in (s1\<lparr>renderTimer := True\<rparr>, e0 @ e1 @ [Assign M_renderTimer, TimerStart]))"

text \<open>
  \<^verbatim>\<open>onRender\<close>.  While the owning thread is inside \<open>Wait\<close> (or between the
  \<open>Unlock\<close> and the \<open>Lock\<close> around \<open>PolishItems\<close>) the render thread runs its own
  calls; the result here holds what \<^verbatim>\<open>onRender\<close> itself assigns.
\<close>

definition onRender :: "SharedObject \<Rightarrow> SharedObject \<times> effect list" where
  "onRender s =
     (if quit s then (s, [])
      else if syncRequested s
      then (s\<lparr>renderRequested := False\<rparr>,
            [Lock, Unlock, PolishItems, Lock,
             PostEvent RenderObject Render NormalEventPriority, Wait,
             Assign M_renderRequested, Unlock])
      else (s\<lparr>renderRequested := False\<rparr>,
            [Lock, PostEvent RenderObject Render NormalEventPriority,
             Assign M_renderRequested, Unlock]))"

text \<open>
  Modelled from the spec: \<^verbatim>\<open>USECS_PER_SECOND\<close> comes from a header that is not part
  of the sources; the spec compares the elapsed time with \<open>1/maxFps\<close> seconds, and the
  timestamps are microseconds, unsigned 64-bit.
\<close>

definition USECS_PER_SECOND :: "64 word" where
  "USECS_PER_SECOND = 1000000"

definition minRenderInterval :: "SharedObject \<Rightarrow> 64 word" where
  "minRenderInterval s = USECS_PER_SECOND div ucast (maxFps s)"

definition lastInterval :: "64 word \<Rightarrow> SharedObject \<Rightarrow> 64 word" where
  "lastInterval now s = now - lastRenderTime s"

text \<open>\<^verbatim>\<open>onTimer\<close>: \<open>now\<close> is \<^verbatim>\<open>usecTimestampNow()\<close>.  The division is by
  \<^verbatim>\<open>_maxFps\<close>, which traps when that is 0.\<close>

definition onTimer :: "64 word \<Rightarrow> SharedObject \<Rightarrow> error + SharedObject \<times> effect list" where
  "onTimer now s =
     (if \<not> renderRequested s then Inr (s, [Report])
      else if 0 \<noteq> fst (latestTextureAndFence s) then Inr (s, [Report, Lock, Unlock])
      else if maxFps s = 0 then Inl DivideByZero
      else if lastInterval now s < minRenderInterval s
      then Inr (s, [Report, Lock, Unlock])
      else Inr (s, [Report, Lock, Unlock, PostEvent This Render NormalEventPriority]))"

text \<open>\<^verbatim>\<open>event\<close>: any other event goes to \<^verbatim>\<open>QObject::event\<close>.\<close>

definition event :: "OffscreenEvent \<Rightarrow> SharedObject \<Rightarrow> SharedObject \<times> effect list" where
  "event e s =
     (case e of
        Initialize \<Rightarrow> onInitialize s
      | Render \<Rightarrow> onRender s
      | Quit \<Rightarrow> (s, [QObjectEvent]))"

subsection \<open>Pause and resume\<close>

definition pause :: "SharedObject \<Rightarrow> SharedObject \<times> effect list" where
  "pause s = (s\<lparr>paused := True\<rparr>, [Assign M_paused])"

definition resume :: "SharedObject \<Rightarrow> SharedObject \<times> effect list" where
  "resume s =
     (let s1 = s\<lparr>paused := False\<rparr>;
          (s2, e2) = requestRender s1
      in (s2, [Assign M_paused] @ e2))"

definition isPaused :: "SharedObject \<Rightarrow> bool" where
  "isPaused s = paused s"

subsection \<open>All calls on one process\<close>

text \<open>The application property that holds the shared context, and the object.\<close>

record Process =
  sharedContextProperty :: nat
  obj :: SharedObject

text \<open>One constructor for each function above, with the values it reads from its
  environment.\<close>

datatype call =
    Call_setSharedContext nat nat
  | Call_create bool
  | Call_setRootItem
  | Call_destroy
  | Call_initializeRenderControl nat bool
  | Call_releaseTextureAndFence
  | Call_getSize
  | Call_setSize QSize
  | Call_preRender bool bool
  | Call_shutdownRendering QSize
  | Call_isQuit
  | Call_requestRender
  | Call_requestRenderSync
  | Call_fetchTexture TextureAndFence
  | Call_event OffscreenEvent
  | Call_onInitialize
  | Call_onRender
  | Call_onTimer "64 word"
  | Call_onAboutToQuit
  | Call_updateTextureAndFence TextureAndFence
  | Call_pause
  | Call_resume
  | Call_isPaused

definition on_obj :: "Process \<Rightarrow> SharedObject \<times> effect list \<Rightarrow> error + Process \<times> effect list" where
  "on_obj p r = Inr (p\<lparr>obj := fst r\<rparr>, snd r)"

fun exec :: "call \<Rightarrow> Process \<Rightarrow> error + Process \<times> effect list" where
  "exec (Call_setSharedContext cur ctx) p =
     (case setSharedContext cur ctx of
        Inl e \<Rightarrow> Inl e
      | Inr v \<Rightarrow> Inr (p\<lparr>sharedContextProperty := v\<rparr>, []))"
| "exec (Call_create incubating) p =
     (case create incubating (obj p) of Inl e \<Rightarrow> Inl e | Inr r \<Rightarrow> on_obj p r)"
| "exec Call_setRootItem p = on_obj p (setRootItem (obj p))"
| "exec Call_destroy p = on_obj p (destroy (obj p))"
| "exec (Call_initializeRenderControl shareContext nsight) p =
     (case initializeRenderControl shareContext (sharedContextProperty p) nsight (obj p) of
        Inl e \<Rightarrow> Inl e
      | Inr r \<Rightarrow> on_obj p r)"
| "exec Call_releaseTextureAndFence p = on_obj p (releaseTextureAndFence (obj p))"
| "exec Call_getSize p = on_obj p (obj p, snd (getSize (obj p)))"
| "exec (Call_setSize sz) p = on_obj p (setSize sz (obj p))"
| "exec (Call_preRender nsight syncOk) p = on_obj p (snd (preRender nsight syncOk (obj p)))"
| "exec (Call_shutdownRendering sz) p = on_obj p (shutdownRendering sz (obj p))"
| "exec Call_isQuit p = on_obj p (obj p, snd (isQuit (obj p)))"
| "exec Call_requestRender p = on_obj p (requestRender (obj p))"
| "exec Call_requestRenderSync p = on_obj p (requestRenderSync (obj p))"
| "exec (Call_fetchTexture out) p = on_obj p (snd (snd (fetchTexture out (obj p))))"
| "exec (Call_event e) p = on_obj p (event e (obj p))"
| "exec Call_onInitialize p = on_obj p (onInitialize (obj p))"
| "exec Call_onRender p = on_obj p (onRender (obj p))"
| "exec (Call_onTimer now) p =
     (case onTimer now (obj p) of Inl e \<Rightarrow> Inl e | Inr r \<Rightarrow> on_obj p r)"
| "exec Call_onAboutToQuit p = on_obj p (onAboutToQuit (obj p))"
| "exec (Call_updateTextureAndFence f) p = on_obj p (updateTextureAndFence f (obj p))"
| "exec Call_pause p = on_obj p (pause (obj p))"
| "exec Call_resume p = on_obj p (resume (obj p))"
| "exec Call_isPaused p = on_obj p (obj p, [])"

subsection \<open>Reading a trace\<close>

text \<open>
  \<open>guarded ms held es\<close>: in the trace \<open>es\<close>, started with the mutex held or not
  (\<open>held\<close>), every assignment to a member of \<open>ms\<close> happens while the mutex is held.
\<close>

fun guarded :: "member list \<Rightarrow> bool \<Rightarrow> effect list \<Rightarrow> bool" where
  "guarded ms held [] = True"
| "guarded ms held (e # es) =
     (case e of
        Lock \<Rightarrow> guarded ms True es
      | Unlock \<Rightarrow> guarded ms False es
      | Assign m \<Rightarrow> (m \<in> set ms \<longrightarrow> held) \<and> guarded ms held es
      | _ \<Rightarrow> guarded ms held es)"

text \<open>The frames handed to \<^verbatim>\<open>offscreenTextures.releaseTexture\<close>, in order.\<close>

fun released :: "effect list \<Rightarrow> TextureAndFence list" where
  "released [] = []"
| "released (e # es) = (case e of ReleaseTexture f \<Rightarrow> f # released es | _ \<Rightarrow> released es)"

text \<open>The events posted, in order.\<close>

fun posted :: "effect list \<Rightarrow> (receiver \<times> OffscreenEvent \<times> priority) list" where
  "posted [] = []"
| "posted (e # es) = (case e of PostEvent r ev pr \<Rightarrow> (r, ev, pr) # posted es | _ \<Rightarrow> posted es)"

text \<open>The number of \<^verbatim>\<open>wake()\<close> calls.\<close>

definition wakes :: "effect list \<Rightarrow> nat" where
  "wakes es = count_list es Wake"

subsection \<open>The mailbox: sequences of publish and fetch\<close>

datatype mailbox_op = Publish TextureAndFence | Fetch

text \<open>
  Running the code on a sequence: \<open>Publish f\<close> is \<^verbatim>\<open>updateTextureAndFence(f)\<close>,
  \<open>Fetch\<close> is \<^verbatim>\<open>fetchTexture\<close> into a fresh variable.  The result is what each fetch
  returned (\<open>None\<close> for \<^verbatim>\<open>false\<close>), the frames released to the texture cache, and the
  object at the end.
\<close>

fun mailbox_run ::
  "mailbox_op list \<Rightarrow> SharedObject
    \<Rightarrow> TextureAndFence option list \<times> TextureAndFence list \<times> SharedObject" where
  "mailbox_run [] s = ([], [], s)"
| "mailbox_run (Publish f # ops) s =
     (let (s1, e) = updateTextureAndFence f s;
          (outs, rel, s2) = mailbox_run ops s1
      in (outs, released e @ rel, s2))"
| "mailbox_run (Fetch # ops) s =
     (let (ok, out, s1, e) = fetchTexture (0, 0) s;
          (outs, rel, s2) = mailbox_run ops s1
      in ((if ok then Some out else None) # outs, released e @ rel, s2))"

text \<open>
  The FrameMailbox as the spec words it: a slot that is empty or holds one Frame.
  \<open>publish\<close> releases a previous unclaimed Frame and stores the new one; \<open>fetch\<close> takes
  the stored Frame, if any, and leaves the slot empty.
\<close>

type_synonym FrameMailbox = "TextureAndFence option"

definition publish :: "TextureAndFence \<Rightarrow> FrameMailbox \<Rightarrow> FrameMailbox \<times> TextureAndFence list" where
  "publish f m = (Some f, case m of None \<Rightarrow> [] | Some g \<Rightarrow> [g])"

definition fetch :: "FrameMailbox \<Rightarrow> TextureAndFence option \<times> FrameMailbox" where
  "fetch m = (m, None)"

fun FrameMailbox_run ::
  "mailbox_op list \<Rightarrow> FrameMailbox
    \<Rightarrow> TextureAndFence option list \<times> TextureAndFence list \<times> FrameMailbox" where
  "FrameMailbox_run [] m = ([], [], m)"
| "FrameMailbox_run (Publish f # ops) m =
     (let (m1, r) = publish f m;
          (outs, rel, m2) = FrameMailbox_run ops m1
      in (outs, r @ rel, m2))"
| "FrameMailbox_run (Fetch # ops) m =
     (let (out, m1) = fetch m;
          (outs, rel, m2) = FrameMailbox_run ops m1
      in (out # outs, rel, m2))"

text \<open>The most recently published Frame not yet fetched, after \<open>ops\<close> on a slot \<open>m\<close>.\<close>

definition pending :: "FrameMailbox \<Rightarrow> mailbox_op list \<Rightarrow> FrameMailbox" where
  "pending m ops =
     (if ops = [] then m
      else (case last ops of Publish f \<Rightarrow> Some f | Fetch \<Rightarrow> None))"

text \<open>The slot an object stands for: the texture name 0 is the empty slot.\<close>

definition mailbox_of :: "SharedObject \<Rightarrow> FrameMailbox" where
  "mailbox_of s =
     (if fst (latestTextureAndFence s) = 0 then None else Some (latestTextureAndFence s))"

definition nonnull_ops :: "mailbox_op list \<Rightarrow> bool" where
  "nonnull_ops ops = list_all (\<lambda>op. case op of Publish f \<Rightarrow> fst f \<noteq> 0 | Fetch \<Rightarrow> True) ops"

subsection \<open>The engine around the mailbox\<close>

text \<open>
  Modelled from the spec: the TexturePool (\<^verbatim>\<open>TextureCache\<close>), the render-thread
  worker (\<^verbatim>\<open>RenderEventHandler\<close>) and the consumer are not part of the sources.
  The spec's pool hands out a Frame with \<open>acquire\<close> and takes it back with \<open>release\<close>;
  here the pool is the list of the Frames that are outside it.  A Frame handed out has a
  texture and is not one that is already outside.
\<close>

definition acquire :: "TextureAndFence \<Rightarrow> TextureAndFence list \<Rightarrow> TextureAndFence list option" where
  "acquire f outside = (if fst f \<noteq> 0 \<and> f \<notin> set outside then Some (f # outside) else None)"

definition release :: "TextureAndFence \<Rightarrow> TextureAndFence list \<Rightarrow> TextureAndFence list" where
  "release f outside = remove1 f outside"

text \<open>
  Modelled from the spec: the engine is the controller (the object of the sources), the
  Render events posted to the controller and the Render commands posted to the worker
  that are not handled yet, the Frame the worker is rendering into (in flight), and the
  Frames the consumer has fetched and not yet released.
\<close>

record Engine =
  shared :: SharedObject
  selfRenders :: nat
  workerRenders :: nat
  inFlight :: "TextureAndFence option"
  claimedFrames :: "TextureAndFence list"
  outsidePool :: "TextureAndFence list"

text \<open>
  Modelled from the spec: the steps of the engine.  The controller's steps and the
  mailbox's run the functions of the sources.  The worker handles one Render command at a
  time: it runs \<open>preRender\<close>, and unless that returns false it notes the time, acquires a
  Frame (\<open>WorkerRender\<close>), draws, and publishes the Frame (\<open>WorkerPublish\<close>).  The
  consumer fetches on its own schedule and releases a Frame it holds when it is done.
  A step that cannot happen in the state gives \<open>None\<close>.
\<close>

datatype engine_step =
    RequestRender
  | RequestRenderSync
  | Resize QSize
  | Pause
  | Resume
  | Tick "64 word"
  | HandleRender
  | WorkerRender bool bool "64 word" TextureAndFence
  | WorkerPublish
  | ConsumerFetch
  | ConsumerRelease TextureAndFence
  | ReleaseLatest

definition count_posted :: "receiver \<Rightarrow> OffscreenEvent \<Rightarrow> effect list \<Rightarrow> nat" where
  "count_posted r ev es =
     length (filter (\<lambda>(r', ev', pr). r' = r \<and> ev' = ev) (posted es))"

fun step :: "engine_step \<Rightarrow> Engine \<Rightarrow> Engine option" where
  "step RequestRender g = Some (g\<lparr>shared := fst (requestRender (shared g))\<rparr>)"
| "step RequestRenderSync g = Some (g\<lparr>shared := fst (requestRenderSync (shared g))\<rparr>)"
| "step (Resize sz) g = Some (g\<lparr>shared := fst (setSize sz (shared g))\<rparr>)"
| "step Pause g = Some (g\<lparr>shared := fst (pause (shared g))\<rparr>)"
| "step Resume g = Some (g\<lparr>shared := fst (resume (shared g))\<rparr>)"
| "step (Tick now) g =
     (case onTimer now (shared g) of
        Inl e \<Rightarrow> None
      | Inr (s, es) \<Rightarrow>
          Some (g\<lparr>shared := s, selfRenders := selfRenders g + count_posted This Render es\<rparr>))"
| "step HandleRender g =
     (if selfRenders g = 0 then None
      else
        (let (s, es) = onRender (shared g)
         in Some (g\<lparr>shared := s, selfRenders := selfRenders g - 1,
                    workerRenders := workerRenders g + count_posted RenderObject Render es\<rparr>)))"
| "step (WorkerRender nsight syncOk now f) g =
     (if workerRenders g = 0 \<or> inFlight g \<noteq> None then None
      else
        (let (ok, s, es) = preRender nsight syncOk (shared g);
             g1 = g\<lparr>shared := s, workerRenders := workerRenders g - 1\<rparr>
         in if \<not> ok then Some g1
            else
              (case acquire f (outsidePool g1) of
                 None \<Rightarrow> None
               | Some outside \<Rightarrow>
                   Some (g1\<lparr>shared := s\<lparr>lastRenderTime := now\<rparr>, inFlight := Some f,
                            outsidePool := outside\<rparr>))))"
| "step WorkerPublish g =
     (case inFlight g of
        None \<Rightarrow> None
      | Some f \<Rightarrow>
          (let (s, es) = updateTextureAndFence f (shared g)
           in Some (g\<lparr>shared := s, inFlight := None,
                      outsidePool := fold release (released es) (outsidePool g)\<rparr>)))"
| "step ConsumerFetch g =
     (let (ok, out, s, es) = fetchTexture (0, 0) (shared g)
      in Some (g\<lparr>shared := s,
                 claimedFrames := (if ok then out # claimedFrames g else claimedFrames g)\<rparr>))"
| "step (ConsumerRelease f) g =
     (if f \<in> set (claimedFrames g)
      then Some (g\<lparr>claimedFrames := remove1 f (claimedFrames g),
                    outsidePool := release f (outsidePool g)\<rparr>)
      else None)"
| "step ReleaseLatest g =
     (let (s, es) = releaseTextureAndFence (shared g)
      in Some (g\<lparr>shared := s, outsidePool := fold release (released es) (outsidePool g)\<rparr>))"

fun engine_run :: "engine_step list \<Rightarrow> Engine \<Rightarrow> Engine option" where
  "engine_run [] g = Some g"
| "engine_run (st # sts) g =
     (case step st g of None \<Rightarrow> None | Some g' \<Rightarrow> engine_run sts g')"

text \<open>The engine when the controller has just been made: nothing posted, nothing in
  flight, nothing claimed, every Frame in the pool.\<close>

definition engine_init :: "SharedObject \<Rightarrow> Engine" where
  "engine_init s = \<lparr> shared = s, selfRenders = 0, workerRenders = 0, inFlight = None,
     claimedFrames = [], outsidePool = [] \<rparr>"

text \<open>The number of Frames outside the pool that are in flight or in the mailbox.\<close>

definition held_by_engine :: "Engine \<Rightarrow> nat" where
  "held_by_engine g =
     (case inFlight g of None \<Rightarrow> 0 | Some f \<Rightarrow> 1)
     + (case mailbox_of (shared g) of None \<Rightarrow> 0 | Some f \<Rightarrow> 1)"

text \<open>The Frames that are in flight, in the mailbox or claimed by the consumer.\<close>

definition held_frames :: "Engine \<Rightarrow> TextureAndFence list" where
  "held_frames g =
     (case inFlight g of None \<Rightarrow> [] | Some f \<Rightarrow> [f])
     @ (case mailbox_of (shared g) of None \<Rightarrow> [] | Some f \<Rightarrow> [f])
     @ claimedFrames g"

text \<open>The accounting that every step keeps: the Frames outside the pool are exactly the
  held ones, and a Frame in flight has a texture.\<close>

definition engine_inv :: "Engine \<Rightarrow> bool" where
  "engine_inv g \<longleftrightarrow>
     mset (outsidePool g) = mset (held_frames g)
     \<and> (case inFlight g of None \<Rightarrow> True | Some f \<Rightarrow> fst f \<noteq> 0)"

text \<open>Two calls of \<open>destroy\<close> in a row, with the trace of both.\<close>

definition destroy_twice :: "SharedObject \<Rightarrow> SharedObject \<times> effect list" where
  "destroy_twice s =
     (let (s1, e1) = destroy s; (s2, e2) = destroy s1 in (s2, e1 @ e2))"

text \<open>An object as the constructor leaves it, used for concrete evaluations.  The
  member initialisers are in the header; only the values written here are used.\<close>

definition object0 :: SharedObject where
  "object0 = \<lparr> rootItem = False, qmlContext = False, renderThread = False,
     renderObject = False, renderTimer = False, latestTextureAndFence = (0, 0),
     size_m = (100, 100), lastRenderTime = 0, maxFps = 60,
     renderRequested = False, syncRequested = False, quit = False, paused = False \<rparr>"

text \<open>A process whose registered shared context is the context 1.\<close>

definition process0 :: Process where
  "process0 = \<lparr> sharedContextProperty = 1, obj = object0 \<rparr>"

text \<open>Two runs of the engine used for concrete evaluations.  In the first the consumer
  fetches every frame and releases none; in the second three ticks post their Render
  before the worker handles the first, and the consumer fetches once.\<close>

definition three_frames :: "engine_step list" where
  "three_frames =
     [RequestRender, Tick 20000, HandleRender, WorkerRender False True 20100 (1, 11),
      WorkerPublish, ConsumerFetch,
      RequestRender, Tick 40000, HandleRender, WorkerRender False True 40100 (2, 12),
      WorkerPublish, ConsumerFetch,
      RequestRender, Tick 60000, HandleRender, WorkerRender False True 60100 (3, 13)]"

definition queued_renders :: "engine_step list" where
  "queued_renders =
     [RequestRender, Tick 20000, HandleRender,
      RequestRender, Tick 40000, HandleRender,
      RequestRender, Tick 60000, HandleRender,
      WorkerRender False True 60100 (1, 11), WorkerPublish, ConsumerFetch,
      WorkerRender False True 60200 (2, 12), WorkerPublish,
      WorkerRender False True 60300 (3, 13)]"

section \<open>Theorems\<close>

subsection \<open>Requests after shutdown has begun\<close>

text \<open>
  C10.  In every state whose quitting flag is set, \<open>requestRenderSync\<close> returns at once:
  the object is returned unchanged (in particular \<open>syncRequested\<close> and
  \<open>renderRequested\<close>) and it makes no call at all, so it posts no event.
\<close>

theorem requestRenderSync_when_quitting:
  "quit s \<Longrightarrow> requestRenderSync s = (s, [])"
  by (simp add: requestRenderSync_def)

theorem requestRenderSync_when_quitting_witness:
  "quit (object0\<lparr>quit := True\<rparr>)
   \<and> requestRenderSync (object0\<lparr>quit := True\<rparr>) = (object0\<lparr>quit := True\<rparr>, [])"
  using requestRenderSync_when_quitting [of "object0\<lparr>quit := True\<rparr>"]
  by simp

subsection \<open>The mailbox\<close>

lemma updateTextureAndFence_mailbox:
  "fst f \<noteq> 0 \<Longrightarrow> mailbox_of (fst (updateTextureAndFence f s)) = Some f"
  by (simp add: updateTextureAndFence_def mailbox_of_def)

lemma updateTextureAndFence_released:
  "released (snd (updateTextureAndFence f s)) = (case mailbox_of s of None \<Rightarrow> [] | Some g \<Rightarrow> [g])"
  by (simp add: updateTextureAndFence_def mailbox_of_def)

lemma updateTextureAndFence_publish:
  "fst f \<noteq> 0 \<Longrightarrow>
   (mailbox_of (fst (updateTextureAndFence f s)), released (snd (updateTextureAndFence f s)))
     = publish f (mailbox_of s)"
  by (simp add: updateTextureAndFence_mailbox updateTextureAndFence_released publish_def)

lemma fetchTexture_mailbox:
  "fetchTexture out s =
     (case mailbox_of s of
        None \<Rightarrow> (False, out, s, [Lock, Unlock])
      | Some f \<Rightarrow> (True, f, s\<lparr>latestTextureAndFence := (0, 0)\<rparr>,
                   [Lock, Assign M_latestTextureAndFence, Unlock]))"
  by (simp add: fetchTexture_def mailbox_of_def)

lemma fetchTexture_empties:
  "mailbox_of (fst (snd (snd (fetchTexture out s)))) = None"
  by (simp add: fetchTexture_def mailbox_of_def)

lemma fetchTexture_released: "released (snd (snd (snd (fetchTexture out s)))) = []"
  by (simp add: fetchTexture_def)

lemma mailbox_run_refines:
  "nonnull_ops ops \<Longrightarrow>
   (case mailbox_run ops s of (outs, rel, s') \<Rightarrow> (outs, rel, mailbox_of s'))
     = FrameMailbox_run ops (mailbox_of s)"
proof (induction ops arbitrary: s)
  case Nil
  then show ?case by simp
next
  case (Cons op ops)
  show ?case
  proof (cases op)
    case (Publish f)
    with Cons.prems have nz: "fst f \<noteq> 0" and rest: "nonnull_ops ops"
      by (simp_all add: nonnull_ops_def)
    obtain s1 e where u: "updateTextureAndFence f s = (s1, e)" by (cases "updateTextureAndFence f s")
    from updateTextureAndFence_publish [OF nz, of s] u
    have p: "publish f (mailbox_of s) = (mailbox_of s1, released e)" by simp
    from Cons.IH [OF rest, of s1] show ?thesis
      by (auto simp: Publish u p split: prod.splits)
  next
    case Fetch
    with Cons.prems have rest: "nonnull_ops ops" by (simp add: nonnull_ops_def)
    obtain ok out s1 e where f: "fetchTexture (0, 0) s = (ok, out, s1, e)"
      by (cases "fetchTexture (0, 0) s") auto
    from f fetchTexture_empties [of "(0,0)" s] have m1: "mailbox_of s1 = None" by simp
    from f fetchTexture_released [of "(0,0)" s] have r: "released e = []" by simp
    from f have o: "(if ok then Some out else None) = mailbox_of s"
      by (auto simp: fetchTexture_mailbox split: option.splits)
    from Cons.IH [OF rest, of s1] show ?thesis
      by (auto simp: Fetch f fetch_def m1 r o split: prod.splits)
  qed
qed

lemma FrameMailbox_run_pending:
  "snd (snd (FrameMailbox_run ops m)) = pending m ops"
proof (induction ops arbitrary: m)
  case Nil
  then show ?case by (simp add: pending_def)
next
  case (Cons op ops)
  show ?case
  proof (cases op)
    case (Publish f)
    from Cons.IH [of "Some f"] show ?thesis
      by (cases "ops = []") (auto simp: Publish publish_def pending_def split: prod.splits)
  next
    case Fetch
    from Cons.IH [of None] show ?thesis
      by (cases "ops = []") (auto simp: Fetch fetch_def pending_def split: prod.splits)
  qed
qed

text \<open>
  C1.  The mailbox is latest-wins.  Take any sequence of publish
  (\<open>updateTextureAndFence\<close>) and fetch (\<open>fetchTexture\<close>) operations whose published
  frames carry a texture (name other than 0, the code's mark of the empty slot), from any
  object.  Then the code behaves as the spec's single-slot FrameMailbox does: every fetch
  returns the same answer and the same frames are released to the texture cache, in the
  same order.  The slot then holds the most recently published frame not yet fetched; a
  further fetch returns exactly that frame, or \<^verbatim>\<open>false\<close> with the caller's variable
  untouched when nothing is pending, and leaves the slot empty; a further publish releases
  exactly the pending frame, if any, and stores the new one.  The slot being one
  value, at most one unclaimed frame exists at any time.
\<close>

theorem mailbox_latest_wins:
  assumes nn: "nonnull_ops ops" and run: "mailbox_run ops s = (outs, rel, s')"
  shows "FrameMailbox_run ops (mailbox_of s) = (outs, rel, mailbox_of s')
       \<and> mailbox_of s' = pending (mailbox_of s) ops
       \<and> fetchTexture out s' =
           (case pending (mailbox_of s) ops of
              None \<Rightarrow> (False, out, s', [Lock, Unlock])
            | Some f \<Rightarrow> (True, f, s'\<lparr>latestTextureAndFence := (0, 0)\<rparr>,
                         [Lock, Assign M_latestTextureAndFence, Unlock]))
       \<and> mailbox_of (fst (snd (snd (fetchTexture out s')))) = None
       \<and> released (snd (updateTextureAndFence f s')) =
           (case pending (mailbox_of s) ops of None \<Rightarrow> [] | Some g \<Rightarrow> [g])
       \<and> latestTextureAndFence (fst (updateTextureAndFence f s')) = f"
proof -
  from mailbox_run_refines [OF nn, of s] run
  have r: "FrameMailbox_run ops (mailbox_of s) = (outs, rel, mailbox_of s')" by simp
  from FrameMailbox_run_pending [of ops "mailbox_of s"] r
  have p: "mailbox_of s' = pending (mailbox_of s) ops" by simp
  have u: "latestTextureAndFence (fst (updateTextureAndFence f s')) = f"
    by (simp add: updateTextureAndFence_def)
  show ?thesis
    using r p u fetchTexture_mailbox [of out s'] fetchTexture_empties [of out s']
      updateTextureAndFence_released [of f s']
    by simp
qed

theorem mailbox_latest_wins_witness:
  "nonnull_ops [Publish (1, 10), Publish (2, 20), Fetch, Fetch, Publish (3, 30)]
  \<and> mailbox_run [Publish (1, 10), Publish (2, 20), Fetch, Fetch, Publish (3, 30)] object0
      = ([Some (2, 20), None], [(1, 10)], object0\<lparr>latestTextureAndFence := (3, 30)\<rparr>)
  \<and> FrameMailbox_run [Publish (1, 10), Publish (2, 20), Fetch, Fetch, Publish (3, 30)] None
      = ([Some (2, 20), None], [(1, 10)], Some (3, 30))
  \<and> fetchTexture (0, 0) (object0\<lparr>latestTextureAndFence := (3, 30)\<rparr>)
      = (True, (3, 30), object0\<lparr>latestTextureAndFence := (0, 0)\<rparr>,
         [Lock, Assign M_latestTextureAndFence, Unlock])
  \<and> released (snd (updateTextureAndFence (4, 40) (object0\<lparr>latestTextureAndFence := (3, 30)\<rparr>)))
      = [(3, 30)]"
proof -
  let ?ops = "[Publish (1, 10), Publish (2, 20), Fetch, Fetch, Publish (3, 30)]"
  have nn: "nonnull_ops ?ops" by (simp add: nonnull_ops_def)
  have run: "mailbox_run ?ops object0
      = ([Some (2, 20), None], [(1, 10)], object0\<lparr>latestTextureAndFence := (3, 30)\<rparr>)"
    by (simp add: updateTextureAndFence_def fetchTexture_def object0_def)
  have m0: "mailbox_of object0 = None" by (simp add: mailbox_of_def object0_def)
  have m1: "mailbox_of (object0\<lparr>latestTextureAndFence := (3, 30)\<rparr>) = Some (3, 30)"
    by (simp add: mailbox_of_def)
  have pe: "pending None ?ops = Some (3, 30)" by (simp add: pending_def)
  from mailbox_latest_wins [OF nn run, of "(0, 0)" "(4, 40)"] nn run
  show ?thesis by (simp add: m0 m1 pe)
qed

text \<open>
  A frame whose texture name is 0 is not seen as a frame: published, it is stored, but
  the slot counts as empty, a fetch returns false and a later publish does not release it.
\<close>

lemma publish_null_texture:
  assumes "fst f = 0"
  shows "mailbox_of (fst (updateTextureAndFence f s)) = None"
    and "fetchTexture out (fst (updateTextureAndFence f s))
           = (False, out, fst (updateTextureAndFence f s), [Lock, Unlock])"
    and "released (snd (updateTextureAndFence g (fst (updateTextureAndFence f s)))) = []"
  using assms by (simp_all add: updateTextureAndFence_def fetchTexture_def mailbox_of_def)

subsection \<open>Pre-render\<close>




subsection \<open>Timer\<close>

text \<open>When the tick skips for pacing, fewer than \<open>1/maxFps\<close> seconds have elapsed: the
  elapsed microseconds times the frame rate stay below one million.\<close>

lemma skip_implies_less_than_frame_time:
  fixes x :: "64 word" and m :: "8 word"
  assumes "m \<noteq> 0" and "x < 1000000 div ucast m"
  shows "unat x * unat m < 1000000"
proof -
  have m0: "0 < unat m" using assms(1) by (simp add: unat_gt_0)
  have "unat m < 2 ^ 8" using unsigned_less [of m] by simp
  then have "unat m < 2 ^ 64" by simp
  then have um: "unat (ucast m :: 64 word) = unat m"
    by (simp add: unsigned_ucast_eq take_bit_nat_eq_self)
  have "unat (1000000 div ucast m :: 64 word) = 1000000 div unat m"
    by (simp add: unat_div um)
  with assms(2) have "unat x < 1000000 div unat m"
    by (simp add: word_less_nat_alt)
  then have "Suc (unat x) \<le> 1000000 div unat m" by simp
  then have "Suc (unat x) * unat m \<le> (1000000 div unat m) * unat m"
    by (rule mult_le_mono1)
  also have "\<dots> \<le> 1000000" by simp
  finally show ?thesis using m0 by simp
qed

text \<open>
  C6 (amended).  The frame-pacing tick, for a frame rate other than 0.  On a timer tick,
  if no render is pending (\<open>renderRequested\<close> false), or the mailbox holds an unclaimed
  frame (the latest texture is not 0), or the time elapsed since the last render, the
  difference \<open>now - lastRenderTime\<close> of the two unsigned 64-bit microsecond timestamps,
  is less than the whole number of microseconds \<open>1000000 div maxFps\<close>, then \<open>onTimer\<close>
  posts no event and returns the object unchanged; otherwise it posts exactly one Render
  event, to the controller itself, and returns the object unchanged.  With a frame rate
  of 0, a render pending and an empty mailbox, the tick does not return: the division
  by the frame rate traps.
\<close>

theorem onTimer_guard:
  "(\<not> renderRequested s \<or> fst (latestTextureAndFence s) \<noteq> 0
      \<or> (maxFps s \<noteq> 0 \<and> now - lastRenderTime s < 1000000 div ucast (maxFps s))
     \<longrightarrow> (\<exists>es. onTimer now s = Inr (s, es) \<and> posted es = []))
   \<and> (renderRequested s \<and> fst (latestTextureAndFence s) = 0 \<and> maxFps s \<noteq> 0
      \<and> \<not> now - lastRenderTime s < 1000000 div ucast (maxFps s)
     \<longrightarrow> (\<exists>es. onTimer now s = Inr (s, es)
            \<and> posted es = [(This, Render, NormalEventPriority)]))
   \<and> (renderRequested s \<and> fst (latestTextureAndFence s) = 0 \<and> maxFps s = 0
     \<longrightarrow> onTimer now s = Inl DivideByZero)"
  by (auto simp: onTimer_def lastInterval_def minRenderInterval_def USECS_PER_SECOND_def)

theorem onTimer_guard_witness:
  "onTimer 20000 object0 = Inr (object0, [Report])
   \<and> onTimer 20000 (object0\<lparr>renderRequested := True, latestTextureAndFence := (7, 9)\<rparr>)
       = Inr (object0\<lparr>renderRequested := True, latestTextureAndFence := (7, 9)\<rparr>,
              [Report, Lock, Unlock])
   \<and> (16665 :: 64 word) - lastRenderTime (object0\<lparr>renderRequested := True\<rparr>)
       < 1000000 div ucast (maxFps (object0\<lparr>renderRequested := True\<rparr>))
   \<and> onTimer 16665 (object0\<lparr>renderRequested := True\<rparr>)
       = Inr (object0\<lparr>renderRequested := True\<rparr>, [Report, Lock, Unlock])
   \<and> \<not> (20000 :: 64 word) - lastRenderTime (object0\<lparr>renderRequested := True\<rparr>)
       < 1000000 div ucast (maxFps (object0\<lparr>renderRequested := True\<rparr>))
   \<and> onTimer 20000 (object0\<lparr>renderRequested := True\<rparr>)
       = Inr (object0\<lparr>renderRequested := True\<rparr>,
              [Report, Lock, Unlock, PostEvent This Render NormalEventPriority])
   \<and> onTimer 20000 (object0\<lparr>renderRequested := True, maxFps := 0\<rparr>) = Inl DivideByZero"
  using onTimer_guard [of object0 20000]
    onTimer_guard [of "object0\<lparr>renderRequested := True\<rparr>" 20000]
    onTimer_guard [of "object0\<lparr>renderRequested := True, maxFps := 0\<rparr>" 20000]
  by (simp add: onTimer_def minRenderInterval_def lastInterval_def USECS_PER_SECOND_def
      object0_def)

text \<open>
  The claim as first stated fails at two ticks with a render pending and an empty mailbox.
  At 60 frames per second, 16666 microseconds after the last render, less than 1/60 of a
  second has elapsed (16666 times 60 is below one million), and the tick posts a Render:
  the code compares with the quotient 16666.  At a frame rate of 0 the tick neither
  returns unchanged nor posts a Render: it traps.
\<close>

theorem onTimer_pacing_counterexample:
  "renderRequested (object0\<lparr>renderRequested := True\<rparr>)
   \<and> unat ((16666 :: 64 word) - lastRenderTime (object0\<lparr>renderRequested := True\<rparr>))
       * unat (maxFps (object0\<lparr>renderRequested := True\<rparr>)) < 1000000
   \<and> onTimer 16666 (object0\<lparr>renderRequested := True\<rparr>)
       = Inr (object0\<lparr>renderRequested := True\<rparr>,
              [Report, Lock, Unlock, PostEvent This Render NormalEventPriority])
   \<and> onTimer 20000 (object0\<lparr>renderRequested := True, maxFps := 0\<rparr>) = Inl DivideByZero"
  by (simp add: onTimer_def minRenderInterval_def lastInterval_def USECS_PER_SECOND_def
      object0_def)

subsection \<open>Resize\<close>

lemma requestRenderSync_flags:
  "\<not> quit s \<Longrightarrow>
     requestRenderSync s =
       (s\<lparr>syncRequested := True, renderRequested := True\<rparr>,
        [Lock, Assign M_syncRequested, Unlock]
        @ (if renderRequested s then [] else [Assign M_renderRequested]))"
  by (cases s) (simp add: requestRenderSync_def requestRender_def)

text \<open>
  C4 (amended).  Resize.  \<open>setSize sz\<close> on an object whose size is already \<open>sz\<close> changes
  nothing: it only reads the size under the mutex.  On an object with another size it
  stores \<open>sz\<close> in the size member while holding the mutex and passes \<open>sz\<close> to the window
  and its content item, and to the root item when there is one.  When the object is not
  quitting it then makes one sync-bearing render request: \<open>syncRequested\<close> is assigned
  once and both \<open>syncRequested\<close> and \<open>renderRequested\<close> are set afterwards, nothing else
  changes.  When the object is quitting, \<open>requestRenderSync\<close> returns at once: the size
  is the only member that changes, neither flag is assigned and nothing is posted.
\<close>

theorem setSize_behaviour:
  "(size_m s = sz \<longrightarrow> setSize sz s = (s, [Lock, Unlock]))
   \<and> (size_m s \<noteq> sz \<longrightarrow>
        size_m (fst (setSize sz s)) = sz
        \<and> guarded [M_size] False (snd (setSize sz s))
        \<and> Assign M_size \<in> set (snd (setSize sz s))
        \<and> SetGeometry sz \<in> set (snd (setSize sz s))
        \<and> ContentItemSetSize sz \<in> set (snd (setSize sz s))
        \<and> (rootItem s \<longrightarrow> RootItemSetSize sz \<in> set (snd (setSize sz s)))
        \<and> (\<not> quit s \<longrightarrow>
              fst (setSize sz s) = s\<lparr>size_m := sz, syncRequested := True, renderRequested := True\<rparr>
              \<and> count_list (snd (setSize sz s)) (Assign M_syncRequested) = 1)
        \<and> (quit s \<longrightarrow>
              fst (setSize sz s) = s\<lparr>size_m := sz\<rparr>
              \<and> Assign M_syncRequested \<notin> set (snd (setSize sz s))
              \<and> Assign M_renderRequested \<notin> set (snd (setSize sz s))
              \<and> posted (snd (setSize sz s)) = []))"
proof (cases "size_m s = sz")
  case True
  then show ?thesis by (simp add: setSize_def getSize_def)
next
  case False
  show ?thesis
  proof (cases "quit s")
    case True
    with False show ?thesis
      by (simp add: setSize_def getSize_def requestRenderSync_def Let_def)
  next
    case q: False
    then have q1: "\<not> quit (s\<lparr>size_m := sz\<rparr>)" by simp
    from False q show ?thesis
      by (simp add: setSize_def getSize_def Let_def requestRenderSync_flags [OF q1])
  qed
qed

theorem setSize_behaviour_witness:
  "setSize (100, 100) object0 = (object0, [Lock, Unlock])
   \<and> setSize (200, 50) (object0\<lparr>rootItem := True\<rparr>)
       = (object0\<lparr>rootItem := True, size_m := (200, 50), syncRequested := True,
                  renderRequested := True\<rparr>,
          [Lock, Unlock, Lock, Assign M_size, Unlock, SetGeometry (200, 50),
           ContentItemSetSize (200, 50), SetContextProperty (200, 50),
           RootItemSetSize (200, 50), Lock, Assign M_syncRequested, Unlock,
           Assign M_renderRequested])
   \<and> fst (setSize (200, 50) (object0\<lparr>quit := True\<rparr>))
       = object0\<lparr>quit := True, size_m := (200, 50)\<rparr>"
proof -
  have a: "size_m object0 = (100, 100)" by (simp add: object0_def)
  have b: "size_m (object0\<lparr>quit := True\<rparr>) \<noteq> (200, 50)" by (simp add: object0_def)
  have c: "quit (object0\<lparr>quit := True\<rparr>)" by simp
  have d: "setSize (200, 50) (object0\<lparr>rootItem := True\<rparr>)
       = (object0\<lparr>rootItem := True, size_m := (200, 50), syncRequested := True,
                  renderRequested := True\<rparr>,
          [Lock, Unlock, Lock, Assign M_size, Unlock, SetGeometry (200, 50),
           ContentItemSetSize (200, 50), SetContextProperty (200, 50),
           RootItemSetSize (200, 50), Lock, Assign M_syncRequested, Unlock,
           Assign M_renderRequested])"
    by (simp add: setSize_def getSize_def requestRenderSync_def requestRender_def object0_def)
  from setSize_behaviour [of object0 "(100, 100)"] a
  have 1: "setSize (100, 100) object0 = (object0, [Lock, Unlock])" by simp
  from setSize_behaviour [of "object0\<lparr>quit := True\<rparr>" "(200, 50)"] b c
  have 2: "fst (setSize (200, 50) (object0\<lparr>quit := True\<rparr>))
       = object0\<lparr>quit := True, size_m := (200, 50)\<rparr>" by simp
  from 1 2 d show ?thesis by simp
qed

text \<open>
  The claim as first stated, that every \<open>setSize\<close> to a different size sets both
  \<open>syncRequested\<close> and \<open>renderRequested\<close>, fails on an object that is quitting.
\<close>

theorem setSize_when_quitting_counterexample:
  "size_m (object0\<lparr>quit := True\<rparr>) \<noteq> (200, 50)
   \<and> \<not> syncRequested (fst (setSize (200, 50) (object0\<lparr>quit := True\<rparr>)))
   \<and> \<not> renderRequested (fst (setSize (200, 50) (object0\<lparr>quit := True\<rparr>)))"
  by (simp add: setSize_def getSize_def requestRenderSync_def object0_def)

subsection \<open>Shutdown\<close>

text \<open>
  C5 (amended).  Shutdown.  Two calls of \<open>destroy\<close> leave the object as one call does, in
  every state.  When a root item has been set and the object is not yet quitting, the first
  call sets the quitting flag under the mutex, posts exactly one event, the Quit command
  to the render object with high priority, ends by waiting for the render thread, and
  releases no pooled texture; the second call does nothing at all, so both calls
  together have the trace of one.  When no root item has been set, there is no render
  thread: each call only schedules the object's deletion, the quitting flag stays clear and
  no Quit is posted.  When the object is already quitting, \<open>destroy\<close> does nothing.
\<close>

theorem destroy_idempotent:
  "fst (destroy_twice s) = fst (destroy s)
   \<and> destroy (fst (destroy s)) = (fst (destroy s), if \<not> rootItem s \<and> \<not> quit s then [DeleteLater] else [])
   \<and> (rootItem s \<and> \<not> quit s \<longrightarrow>
        destroy_twice s = destroy s
        \<and> quit (fst (destroy s))
        \<and> posted (snd (destroy_twice s)) = [(RenderObject, Quit, HighEventPriority)]
        \<and> last (snd (destroy_twice s)) = ThreadWait
        \<and> guarded [M_quit] False (snd (destroy_twice s))
        \<and> released (snd (destroy_twice s)) = []
        \<and> (\<forall>sz. ReleaseSize sz \<notin> set (snd (destroy_twice s))))
   \<and> (\<not> rootItem s \<and> \<not> quit s \<longrightarrow>
        destroy s = (s, [DeleteLater]) \<and> destroy_twice s = (s, [DeleteLater, DeleteLater]))
   \<and> (quit s \<longrightarrow> destroy s = (s, []) \<and> destroy_twice s = (s, []))"
  by (auto simp: destroy_twice_def destroy_def)

theorem destroy_idempotent_witness:
  "destroy_twice (object0\<lparr>rootItem := True\<rparr>) = destroy (object0\<lparr>rootItem := True\<rparr>)
   \<and> destroy (object0\<lparr>rootItem := True\<rparr>)
       = (object0\<lparr>rootItem := True, quit := True, paused := True\<rparr>,
          [Assign M_paused, DisconnectRenderControl, DisconnectApp, Lock, Assign M_quit,
           PostEvent RenderObject Quit HighEventPriority, Unlock, ThreadWait])
   \<and> destroy_twice object0 = (object0, [DeleteLater, DeleteLater])
   \<and> destroy_twice (object0\<lparr>quit := True\<rparr>) = (object0\<lparr>quit := True\<rparr>, [])"
proof -
  have a: "rootItem (object0\<lparr>rootItem := True\<rparr>) \<and> \<not> quit (object0\<lparr>rootItem := True\<rparr>)"
    by (simp add: object0_def)
  have b: "\<not> rootItem object0 \<and> \<not> quit object0" by (simp add: object0_def)
  have c: "quit (object0\<lparr>quit := True\<rparr>)" by simp
  have d: "destroy (object0\<lparr>rootItem := True\<rparr>)
       = (object0\<lparr>rootItem := True, quit := True, paused := True\<rparr>,
          [Assign M_paused, DisconnectRenderControl, DisconnectApp, Lock, Assign M_quit,
           PostEvent RenderObject Quit HighEventPriority, Unlock, ThreadWait])"
    by (simp add: destroy_def object0_def)
  from destroy_idempotent [of "object0\<lparr>rootItem := True\<rparr>"] a
  have 1: "destroy_twice (object0\<lparr>rootItem := True\<rparr>) = destroy (object0\<lparr>rootItem := True\<rparr>)"
    by simp
  from destroy_idempotent [of object0] b
  have 2: "destroy_twice object0 = (object0, [DeleteLater, DeleteLater])" by simp
  from destroy_idempotent [of "object0\<lparr>quit := True\<rparr>"] c
  have 3: "destroy_twice (object0\<lparr>quit := True\<rparr>) = (object0\<lparr>quit := True\<rparr>, [])" by simp
  from 1 2 3 d show ?thesis by simp
qed

text \<open>
  The claim as first stated, that after two calls the quitting flag is set, the Quit
  command has been posted once and the second call is a no-op, fails on an object without
  a root item: the flag is clear, nothing is posted, and the second call schedules the
  deletion again.
\<close>

theorem destroy_without_root_counterexample:
  "\<not> quit (fst (destroy_twice object0))
   \<and> posted (snd (destroy_twice object0)) = []
   \<and> snd (destroy object0) \<noteq> snd (destroy_twice object0)"
  by (simp add: destroy_twice_def destroy_def object0_def)

subsection \<open>Pause and resume\<close>

text \<open>
  C9 (amended).  Pause and resume.  \<open>pause\<close> only sets the paused flag; it posts nothing
  and wakes nobody.  While the object is paused, the render thread's \<open>preRender\<close> returns
  false, so that no frame is produced, leaves the object unchanged, and, if a sync is
  pending, wakes the waiter on the condition variable without calling the scene-graph
  sync: a thread waiting for the rendezvous is not left blocked.  \<open>resume\<close> clears the
  paused flag and makes a render request, after which \<open>renderRequested\<close> is set.  The
  timer tick and \<open>onRender\<close> do not read the paused flag: they post the same events
  whether the object is paused or not.
\<close>

theorem pause_resume_behaviour:
  "pause s = (s\<lparr>paused := True\<rparr>, [Assign M_paused])
   \<and> (paused s \<longrightarrow>
        preRender nsight syncOk s
          = (False, s, [Lock] @ (if syncRequested s then [Wake] else []) @ [Unlock]))
   \<and> (syncRequested s \<longrightarrow>
        wakes (snd (snd (preRender nsight syncOk (fst (pause s))))) = 1
        \<and> Sync \<notin> set (snd (snd (preRender nsight syncOk (fst (pause s))))))
   \<and> fst (resume s) = s\<lparr>paused := False, renderRequested := True\<rparr>
   \<and> posted (snd (pause s)) = [] \<and> posted (snd (resume s)) = []
   \<and> onTimer now (s\<lparr>paused := True\<rparr>)
       = map_sum id (\<lambda>(s', es). (s'\<lparr>paused := True\<rparr>, es)) (onTimer now s)
   \<and> posted (snd (onRender (s\<lparr>paused := True\<rparr>))) = posted (snd (onRender s))"
  by (cases s) (auto simp: pause_def resume_def requestRender_def preRender_def wakes_def
      onTimer_def onRender_def lastInterval_def minRenderInterval_def)

theorem pause_resume_behaviour_witness:
  "paused (fst (pause (object0\<lparr>syncRequested := True\<rparr>)))
   \<and> preRender False True (fst (pause (object0\<lparr>syncRequested := True\<rparr>)))
       = (False, object0\<lparr>syncRequested := True, paused := True\<rparr>, [Lock, Wake, Unlock])
   \<and> fst (resume (fst (pause object0))) = object0\<lparr>renderRequested := True\<rparr>"
proof -
  let ?s = "object0\<lparr>syncRequested := True\<rparr>"
  have p: "fst (pause ?s) = object0\<lparr>syncRequested := True, paused := True\<rparr>"
    by (simp add: pause_def)
  have a: "paused (object0\<lparr>syncRequested := True, paused := True\<rparr>)" by simp
  have b: "syncRequested (object0\<lparr>syncRequested := True, paused := True\<rparr>)" by simp
  from pause_resume_behaviour [of "object0\<lparr>syncRequested := True, paused := True\<rparr>" False True] a b
  have 1: "preRender False True (object0\<lparr>syncRequested := True, paused := True\<rparr>)
       = (False, object0\<lparr>syncRequested := True, paused := True\<rparr>, [Lock, Wake, Unlock])"
    by simp
  have q: "fst (pause object0) = object0\<lparr>paused := True\<rparr>" by (simp add: pause_def)
  from pause_resume_behaviour [of "object0\<lparr>paused := True\<rparr>"]
  have 2: "fst (resume (object0\<lparr>paused := True\<rparr>)) = object0\<lparr>renderRequested := True\<rparr>"
    by (simp add: object0_def)
  from 1 2 p q show ?thesis by simp
qed

text \<open>
  The claim as first stated, that no new Render command is issued while paused, fails:
  on a paused object with a render pending, the tick posts a Render event to the
  controller, and \<open>onRender\<close> then posts a Render command to the render object.
\<close>

theorem render_posted_while_paused_counterexample:
  "paused (fst (pause (object0\<lparr>renderRequested := True\<rparr>)))
   \<and> onTimer 20000 (fst (pause (object0\<lparr>renderRequested := True\<rparr>)))
       = Inr (object0\<lparr>renderRequested := True, paused := True\<rparr>,
              [Report, Lock, Unlock, PostEvent This Render NormalEventPriority])
   \<and> onRender (object0\<lparr>renderRequested := True, paused := True\<rparr>)
       = (object0\<lparr>renderRequested := False, paused := True\<rparr>,
          [Lock, PostEvent RenderObject Render NormalEventPriority,
           Assign M_renderRequested, Unlock])"
  by (simp add: pause_def onTimer_def onRender_def lastInterval_def minRenderInterval_def
      USECS_PER_SECOND_def object0_def)

subsection \<open>Fatal errors\<close>

text \<open>
  C8 (amended).  Fatal errors.  Over all the calls of the object, the process aborts
  through \<^verbatim>\<open>qFatal\<close> exactly in three cases: \<open>initializeRenderControl\<close> on a render
  context whose share context differs from the registered shared context; \<open>create\<close> on
  an object that already has a root item; \<open>setSharedContext\<close> with a context that is not
  the current context.  No other call aborts this way; in particular \<open>setRootItem\<close>
  never does, whether a root item exists or not.  (The division in \<open>onTimer\<close> by a
  frame rate of 0 is a trap of the processor, not a \<^verbatim>\<open>qFatal\<close>.)
\<close>

theorem fatal_exactly:
  "(\<exists>msg. exec c p = Inl (Fatal msg)) \<longleftrightarrow>
     (case c of
        Call_setSharedContext currentContext sharedContext \<Rightarrow> currentContext \<noteq> sharedContext
      | Call_create incubating \<Rightarrow> rootItem (obj p)
      | Call_initializeRenderControl shareContext nsight \<Rightarrow>
          shareContext \<noteq> sharedContextProperty p
      | _ \<Rightarrow> False)"
  by (cases c)
    (auto simp: on_obj_def setSharedContext_def create_def initializeRenderControl_def
      onTimer_def split: sum.splits)

theorem fatal_exactly_witness:
  "exec (Call_initializeRenderControl 2 False) process0
     = Inl (Fatal ''QML rendering context has no share context'')
   \<and> exec (Call_initializeRenderControl 1 False) process0 = Inr (process0, [InitializeControl])
   \<and> exec (Call_create False) (process0\<lparr>obj := object0\<lparr>rootItem := True\<rparr>\<rparr>)
     = Inl (Fatal ''QML surface root item already set'')
   \<and> exec (Call_setSharedContext 3 4) process0
     = Inl (Fatal ''The shared context must be the current context when setting'')
   \<and> (\<forall>msg. exec Call_setRootItem (process0\<lparr>obj := object0\<lparr>rootItem := True\<rparr>\<rparr>) \<noteq> Inl (Fatal msg))"
  using fatal_exactly [of Call_setRootItem "process0\<lparr>obj := object0\<lparr>rootItem := True\<rparr>\<rparr>"]
  by (simp add: on_obj_def setSharedContext_def create_def initializeRenderControl_def
      process0_def object0_def)

text \<open>
  The claim as first stated, that the process aborts exactly at a share-context mismatch
  during the render thread's initialisation and at a root assignment when a root item
  already exists, fails both ways: \<open>setRootItem\<close> on an object with a root item returns
  normally, and \<open>setSharedContext\<close> aborts in a case that is neither of the two.
\<close>

theorem fatal_conditions_counterexample:
  "rootItem (obj (process0\<lparr>obj := object0\<lparr>rootItem := True\<rparr>\<rparr>))
   \<and> exec Call_setRootItem (process0\<lparr>obj := object0\<lparr>rootItem := True\<rparr>\<rparr>)
       = Inr (process0\<lparr>obj := object0\<lparr>rootItem := True, renderThread := True,
                                      renderObject := True\<rparr>\<rparr>,
              [Assign M_rootItem, RootItemSetSizeOfWindow, Assign M_renderThread, ThreadStart,
               Assign M_renderObject, PostEvent This Initialize NormalEventPriority,
               ConnectRenderRequested, ConnectSceneChanged])
   \<and> exec (Call_setSharedContext 3 4) process0
       = Inl (Fatal ''The shared context must be the current context when setting'')"
  by (simp add: on_obj_def setRootItem_def setSharedContext_def process0_def object0_def)

subsection \<open>The mutex\<close>

text \<open>
  C3 (amended).  The mutex.  In every call of the object, by either thread, every
  assignment to the quitting flag, to \<open>syncRequested\<close> and to the size happens while the
  mutex is held; so does the clearing of \<open>renderRequested\<close> in \<open>onRender\<close>.
\<close>

theorem mutex_discipline:
  "(exec c p = Inr (p', es) \<longrightarrow> guarded [M_quit, M_syncRequested, M_size] False es)
   \<and> guarded [M_renderRequested] False (snd (onRender s))"
proof -
  have "guarded [M_quit, M_syncRequested, M_size] False es" if "exec c p = Inr (p', es)"
    using that
    by (cases c)
      (auto simp: on_obj_def setSharedContext_def create_def setRootItem_def destroy_def
        initializeRenderControl_def releaseTextureAndFence_def getSize_def
        preRender_def shutdownRendering_def isQuit_def fetchTexture_def event_def
        onTimer_def onAboutToQuit_def updateTextureAndFence_def pause_def resume_def
        requestRender_def requestRenderSync_def setSize_def onInitialize_def onRender_def
        Let_def
        split: sum.splits if_splits OffscreenEvent.splits)
  moreover have "guarded [M_renderRequested] False (snd (onRender s))"
    by (simp add: onRender_def)
  ultimately show ?thesis by simp
qed

theorem mutex_discipline_witness:
  "exec (Call_setSize (200, 50)) process0
     = Inr (process0\<lparr>obj := object0\<lparr>size_m := (200, 50), syncRequested := True,
                                    renderRequested := True\<rparr>\<rparr>,
            [Lock, Unlock, Lock, Assign M_size, Unlock, SetGeometry (200, 50),
             ContentItemSetSize (200, 50), Lock, Assign M_syncRequested, Unlock,
             Assign M_renderRequested])
   \<and> guarded [M_quit, M_syncRequested, M_size] False
        [Lock, Unlock, Lock, Assign M_size, Unlock, SetGeometry (200, 50),
         ContentItemSetSize (200, 50), Lock, Assign M_syncRequested, Unlock,
         Assign M_renderRequested]"
proof -
  have e: "exec (Call_setSize (200, 50)) process0
     = Inr (process0\<lparr>obj := object0\<lparr>size_m := (200, 50), syncRequested := True,
                                    renderRequested := True\<rparr>\<rparr>,
            [Lock, Unlock, Lock, Assign M_size, Unlock, SetGeometry (200, 50),
             ContentItemSetSize (200, 50), Lock, Assign M_syncRequested, Unlock,
             Assign M_renderRequested])"
    by (simp add: on_obj_def setSize_def getSize_def requestRenderSync_def requestRender_def
        process0_def object0_def)
  from mutex_discipline [of "Call_setSize (200, 50)" process0] e show ?thesis
    by simp
qed

text \<open>
  The claim as first stated, that every assignment to the paused flag and to
  \<open>renderRequested\<close> also happens under the mutex, fails: \<open>pause\<close> assigns the paused flag,
  and \<open>requestRender\<close> assigns \<open>renderRequested\<close>, without taking the mutex.
\<close>

theorem mutex_discipline_counterexample:
  "exec Call_pause process0 = Inr (process0\<lparr>obj := object0\<lparr>paused := True\<rparr>\<rparr>, [Assign M_paused])
   \<and> \<not> guarded [M_paused, M_quit, M_syncRequested, M_renderRequested, M_size] False
         [Assign M_paused]
   \<and> exec Call_requestRender process0
       = Inr (process0\<lparr>obj := object0\<lparr>renderRequested := True\<rparr>\<rparr>, [Assign M_renderRequested])
   \<and> \<not> guarded [M_paused, M_quit, M_syncRequested, M_renderRequested, M_size] False
         [Assign M_renderRequested]"
  by (simp add: on_obj_def pause_def requestRender_def process0_def object0_def)

text \<open>The trace is faithful: a call that records no assignment to one of the five
  members leaves that member as it was.\<close>

lemma exec_unassigned_unchanged:
  assumes "exec c p = Inr (p', es)"
  shows "(Assign M_paused \<notin> set es \<longrightarrow> paused (obj p') = paused (obj p))
       \<and> (Assign M_quit \<notin> set es \<longrightarrow> quit (obj p') = quit (obj p))
       \<and> (Assign M_syncRequested \<notin> set es \<longrightarrow> syncRequested (obj p') = syncRequested (obj p))
       \<and> (Assign M_renderRequested \<notin> set es \<longrightarrow> renderRequested (obj p') = renderRequested (obj p))
       \<and> (Assign M_size \<notin> set es \<longrightarrow> size_m (obj p') = size_m (obj p))"
  using assms
  by (cases c)
    (auto simp: on_obj_def setSharedContext_def create_def setRootItem_def destroy_def
      initializeRenderControl_def releaseTextureAndFence_def getSize_def
      preRender_def shutdownRendering_def isQuit_def fetchTexture_def event_def
      onTimer_def onAboutToQuit_def updateTextureAndFence_def pause_def resume_def
      requestRender_def requestRenderSync_def setSize_def onInitialize_def onRender_def
      Let_def
      split: sum.splits if_splits OffscreenEvent.splits)

subsection \<open>Frames outside the pool\<close>

lemma latest_requestRender [simp]:
  "latestTextureAndFence (fst (requestRender s)) = latestTextureAndFence s"
  by (simp add: requestRender_def)

lemma latest_requestRenderSync [simp]:
  "latestTextureAndFence (fst (requestRenderSync s)) = latestTextureAndFence s"
  by (simp add: requestRenderSync_def requestRender_def Let_def)

lemma latest_setSize [simp]:
  "latestTextureAndFence (fst (setSize sz s)) = latestTextureAndFence s"
  by (simp add: setSize_def getSize_def requestRenderSync_def requestRender_def Let_def)

lemma latest_pause [simp]: "latestTextureAndFence (fst (pause s)) = latestTextureAndFence s"
  by (simp add: pause_def)

lemma latest_resume [simp]: "latestTextureAndFence (fst (resume s)) = latestTextureAndFence s"
  by (simp add: resume_def requestRender_def Let_def)

lemma onTimer_object:
  "onTimer now s = Inr (s', es) \<Longrightarrow> s' = s"
  by (auto simp: onTimer_def split: if_splits)

lemma latest_onRender [simp]:
  "latestTextureAndFence (fst (onRender s)) = latestTextureAndFence s"
  by (simp add: onRender_def)

lemma latest_preRender [simp]:
  "latestTextureAndFence (fst (snd (preRender nsight syncOk s))) = latestTextureAndFence s"
  by (simp add: preRender_def Let_def)

lemma engine_inv_shared:
  "engine_inv g \<Longrightarrow> latestTextureAndFence s' = latestTextureAndFence (shared g)
    \<Longrightarrow> engine_inv (g\<lparr>shared := s'\<rparr>)"
  by (simp add: engine_inv_def held_frames_def mailbox_of_def)

lemma step_preserves:
  assumes "step st g = Some g'" and "engine_inv g"
  shows "engine_inv g'"
proof (cases st)
  case RequestRender
  with assms show ?thesis by (auto intro: engine_inv_shared)
next
  case RequestRenderSync
  with assms show ?thesis by (auto intro: engine_inv_shared)
next
  case (Resize sz)
  with assms show ?thesis by (auto intro: engine_inv_shared)
next
  case Pause
  with assms show ?thesis by (auto intro: engine_inv_shared)
next
  case Resume
  with assms show ?thesis by (auto intro: engine_inv_shared)
next
  case (Tick now)
  with assms show ?thesis
    by (auto simp: engine_inv_def held_frames_def split: sum.splits dest!: onTimer_object)
next
  case HandleRender
  obtain s es where r: "onRender (shared g) = (s, es)" by (cases "onRender (shared g)")
  from latest_onRender [of "shared g"] r
  have l: "latestTextureAndFence s = latestTextureAndFence (shared g)" by simp
  from assms HandleRender r l show ?thesis
    by (auto simp: engine_inv_def held_frames_def mailbox_of_def split: if_splits)
next
  case (WorkerRender nsight syncOk now f)
  obtain ok s es where r: "preRender nsight syncOk (shared g) = (ok, s, es)"
    by (cases "preRender nsight syncOk (shared g)") auto
  from latest_preRender [of nsight syncOk "shared g"] r
  have l: "latestTextureAndFence s = latestTextureAndFence (shared g)" by simp
  show ?thesis
  proof (cases ok)
    case False
    with assms(1) WorkerRender r
    have "g' = g\<lparr>shared := s, workerRenders := workerRenders g - 1\<rparr>"
      by (auto simp: Let_def split: if_splits)
    with assms(2) l show ?thesis
      by (simp add: engine_inv_def held_frames_def mailbox_of_def)
  next
    case True
    have idle: "inFlight g = None"
    proof (rule ccontr)
      assume "inFlight g \<noteq> None"
      with assms(1) WorkerRender show False by simp
    qed
    from True assms(1) WorkerRender r idle
    have nz: "fst f \<noteq> 0"
      and g': "g' = g\<lparr>shared := s\<lparr>lastRenderTime := now\<rparr>,
                      workerRenders := workerRenders g - 1, inFlight := Some f,
                      outsidePool := f # outsidePool g\<rparr>"
      by (auto simp: Let_def acquire_def split: if_splits)
    from assms(2) idle nz l show ?thesis
      by (simp add: g' engine_inv_def held_frames_def mailbox_of_def)
  qed
next
  case WorkerPublish
  from assms WorkerPublish obtain f where f: "inFlight g = Some f"
    by (auto split: option.splits)
  with assms(2) have nz: "fst f \<noteq> 0" by (simp add: engine_inv_def)
  from assms f WorkerPublish nz show ?thesis
    by (auto simp: engine_inv_def held_frames_def mailbox_of_def updateTextureAndFence_def
        release_def split: if_splits)
next
  case ConsumerFetch
  with assms show ?thesis
    by (auto simp: engine_inv_def held_frames_def mailbox_of_def fetchTexture_def
        split: if_splits option.splits)
next
  case (ConsumerRelease f)
  with assms show ?thesis
    by (auto simp: engine_inv_def held_frames_def mailbox_of_def release_def
        split: if_splits option.splits)
next
  case ReleaseLatest
  with assms show ?thesis
    by (auto simp: engine_inv_def held_frames_def mailbox_of_def releaseTextureAndFence_def
        release_def split: if_splits option.splits)
qed

lemma engine_run_preserves:
  "engine_run sts g = Some g' \<Longrightarrow> engine_inv g \<Longrightarrow> engine_inv g'"
proof (induction sts arbitrary: g)
  case Nil
  then show ?case by simp
next
  case (Cons st sts)
  from Cons.prems(1) obtain g1 where s: "step st g = Some g1" and r: "engine_run sts g1 = Some g'"
    by (auto split: option.splits)
  from step_preserves [OF s Cons.prems(2)] have "engine_inv g1" .
  with Cons.IH r show ?case by blast
qed

lemma engine_init_inv:
  "fst (latestTextureAndFence s) = 0 \<Longrightarrow> engine_inv (engine_init s)"
  by (simp add: engine_inv_def engine_init_def held_frames_def mailbox_of_def)

lemma length_held_frames: "length (held_frames g) = held_by_engine g + length (claimedFrames g)"
  by (simp add: held_frames_def held_by_engine_def split: option.splits)

lemma held_by_engine_le: "held_by_engine g \<le> 2"
  by (simp add: held_by_engine_def split: option.splits)

text \<open>
  C7 (amended).  Frames outside the pool.  In every state the engine reaches from a
  controller with an empty mailbox, the Frames outside the TexturePool are exactly the
  Frame in flight on the render thread, if any, the Frame unclaimed in the mailbox slot,
  if any, and the Frames the consumer has fetched and not yet released.  So the engine
  holds at most 2 of them, one in flight and one in the mailbox, and the number outside
  the pool is at most 2 more than the number the consumer holds.
\<close>

theorem live_frames_bound:
  assumes "fst (latestTextureAndFence s) = 0"
    and "engine_run sts (engine_init s) = Some g"
  shows "mset (outsidePool g) = mset (held_frames g)
       \<and> length (outsidePool g) = held_by_engine g + length (claimedFrames g)
       \<and> held_by_engine g \<le> 2
       \<and> length (outsidePool g) \<le> 2 + length (claimedFrames g)"
proof -
  from engine_run_preserves [OF assms(2) engine_init_inv [OF assms(1)]]
  have m: "mset (outsidePool g) = mset (held_frames g)" by (simp add: engine_inv_def)
  then have "length (outsidePool g) = length (held_frames g)" by (rule mset_eq_length)
  with m length_held_frames [of g] held_by_engine_le [of g] show ?thesis by simp
qed

theorem live_frames_bound_witness:
  "fst (latestTextureAndFence object0) = 0
   \<and> engine_run three_frames (engine_init object0)
       = Some \<lparr> shared = object0\<lparr>lastRenderTime := 60100\<rparr>, selfRenders = 0,
                 workerRenders = 0, inFlight = Some (3, 13),
                 claimedFrames = [(2, 12), (1, 11)],
                 outsidePool = [(3, 13), (2, 12), (1, 11)] \<rparr>
   \<and> held_by_engine \<lparr> shared = object0\<lparr>lastRenderTime := 60100\<rparr>, selfRenders = 0,
                 workerRenders = 0, inFlight = Some (3, 13),
                 claimedFrames = [(2, 12), (1, 11)],
                 outsidePool = [(3, 13), (2, 12), (1, 11)] \<rparr> = 1"
proof -
  have a: "fst (latestTextureAndFence object0) = 0" by (simp add: object0_def)
  have b: "engine_run three_frames (engine_init object0)
       = Some \<lparr> shared = object0\<lparr>lastRenderTime := 60100\<rparr>, selfRenders = 0,
                 workerRenders = 0, inFlight = Some (3, 13),
                 claimedFrames = [(2, 12), (1, 11)],
                 outsidePool = [(3, 13), (2, 12), (1, 11)] \<rparr>"
    by (simp add: three_frames_def engine_init_def object0_def requestRender_def
        onTimer_def onRender_def preRender_def updateTextureAndFence_def fetchTexture_def
        acquire_def release_def count_posted_def lastInterval_def minRenderInterval_def
        USECS_PER_SECOND_def)
  from live_frames_bound [OF a b] a b show ?thesis
    by (simp add: held_by_engine_def)
qed

text \<open>
  The claim as first stated, that at most 2 Frames are outside the pool, fails: with one
  Frame fetched by the consumer, one unclaimed in the mailbox and one in flight, three
  are outside the pool.
\<close>

theorem three_live_frames_counterexample:
  "map_option (\<lambda>g. (inFlight g, mailbox_of (shared g), claimedFrames g, length (outsidePool g)))
     (engine_run queued_renders (engine_init object0))
   = Some (Some (3, 13), Some (2, 12), [(1, 11)], 3)"
  by (simp add: queued_renders_def engine_init_def object0_def requestRender_def
      onTimer_def onRender_def preRender_def updateTextureAndFence_def fetchTexture_def
      acquire_def release_def count_posted_def lastInterval_def minRenderInterval_def
      USECS_PER_SECOND_def mailbox_of_def)

end
